theory Spec2Isabelle
  imports Complex_Main "HOL-Library.Sublist"
begin

section \<open>Python values used by the experiment manager\<close>

text \<open>
  The file \<^verbatim>\<open>experiments/mnist_experiment/experiment_manager.py\<close> defines the class
  \<^verbatim>\<open>MnistExperiment\<close>. Its methods are embedded below as HOL functions. Exceptions are
  values of the type \<open>error\<close>; a method that can raise returns a sum whose left
  injection is the exception.
\<close>

datatype error =
    RuntimeError string
  | AssertionError
  | ZeroDivisionError
  | StopIteration
  | KeyError string

subsection \<open>\<^verbatim>\<open>str\<close> of an integer\<close>

definition digit_char :: "nat \<Rightarrow> char" where
  "digit_char d = ''0123456789'' ! d"

fun str_nat :: "nat \<Rightarrow> string" where
  "str_nat n = (if n < 10 then [digit_char n] else str_nat (n div 10) @ [digit_char (n mod 10)])"

declare str_nat.simps [simp del]

definition str_int :: "int \<Rightarrow> string" where
  "str_int i = (if i < 0 then CHR ''-'' # str_nat (nat (- i)) else str_nat (nat i))"

subsection \<open>\<^verbatim>\<open>str.find\<close> and \<^verbatim>\<open>str.split\<close>\<close>

text \<open>
  \<open>str_find s sub\<close> is \<^verbatim>\<open>s.find(sub)\<close>: the lowest index at which \<open>sub\<close> occurs in \<open>s\<close>,
  or \<open>-1\<close>. \<open>str_split s sep\<close> is \<^verbatim>\<open>s.split(sep)\<close> for a separator of one character; the
  result is never the empty list.
\<close>

primrec find_from :: "string \<Rightarrow> string \<Rightarrow> int \<Rightarrow> int" where
  "find_from sub [] i = (if sub = [] then i else - 1)"
| "find_from sub (c # cs) i =
     (if take (length sub) (c # cs) = sub then i else find_from sub cs (i + 1))"

definition str_find :: "string \<Rightarrow> string \<Rightarrow> int" where
  "str_find s sub = find_from sub s 0"

primrec str_split :: "string \<Rightarrow> char \<Rightarrow> string list" where
  "str_split [] sep = [[]]"
| "str_split (c # cs) sep =
     (if c = sep then [] # str_split cs sep
      else (c # hd (str_split cs sep)) # tl (str_split cs sep))"

subsection \<open>Dictionaries\<close>

text \<open>
  A \<^verbatim>\<open>dict\<close> is an association list in insertion order, which is the order in which
  \<^verbatim>\<open>keys()\<close> iterates. \<open>getitem d k\<close> is \<^verbatim>\<open>d[k]\<close>.
\<close>

definition getitem :: "(string \<times> 'v) list \<Rightarrow> string \<Rightarrow> error + 'v" where
  "getitem d k = (case map_of d k of None \<Rightarrow> Inl (KeyError k) | Some v \<Rightarrow> Inr v)"

subsection \<open>\<^verbatim>\<open>os.path.join\<close>\<close>

text \<open>The POSIX version, for two components.\<close>

definition path_join :: "string \<Rightarrow> string \<Rightarrow> string" where
  "path_join a b =
     (if take 1 b = ''/'' then b
      else if a = [] \<or> last a = CHR ''/'' then a @ b
      else a @ ''/'' @ b)"

section \<open>Configuration\<close>

text \<open>
  The \<^verbatim>\<open>argparse.Namespace\<close> read by the methods below. Only the attributes that the
  methods of this file read are fields; the record is extensible for the rest.
\<close>

record config =
  seed :: int
  additional_descr :: string
  dry_run :: bool
  loglik_interval :: int
  test_log_interval :: int

subsection \<open>\<^verbatim>\<open>_parse_args\<close>\<close>

text \<open>
  The parser is built by \<^verbatim>\<open>argparse\<close> and by \<^verbatim>\<open>add_required_args\<close> of the base class,
  neither of which is part of this file: the argument \<open>parsed\<close> is the namespace that
  \<^verbatim>\<open>parser.parse_args()\<close> returned. What the method itself does is the assertion
  \<^verbatim>\<open>assert args.loglik_interval % args.test_log_interval == 0\<close>. Python's \<^verbatim>\<open>%\<close> on
  integers raises \<^verbatim>\<open>ZeroDivisionError\<close> for a zero divisor and otherwise is the
  remainder of floor division, which is \<open>mod\<close> on \<open>int\<close>. The assertion is taken as
  executed: under the interpreter option \<^verbatim>\<open>-O\<close> Python removes it.
\<close>

definition parse_args :: "'a config_scheme \<Rightarrow> error + 'a config_scheme" where
  "parse_args parsed =
     (if test_log_interval parsed = 0 then Inl ZeroDivisionError
      else if loglik_interval parsed mod test_log_interval parsed = 0 then Inr parsed
      else Inl AssertionError)"

subsection \<open>\<^verbatim>\<open>_make_run_description\<close>\<close>

definition make_run_description :: "'a config_scheme \<Rightarrow> string" where
  "make_run_description a =
     (let s = [];
          s = s @ ''seed'' @ str_int (seed a);
          s = (if length (additional_descr a) > 0 then s @ '','' @ additional_descr a else s)
      in s)"

section \<open>Log lines\<close>

subsection \<open>\<^verbatim>\<open>print_test_log\<close>\<close>

text \<open>
  The loop over \<^verbatim>\<open>summaries.keys()\<close>: it stops at the first key \<open>k\<close> with
  \<^verbatim>\<open>k.find('elbo_IW') > -1\<close> and keeps \<open>k\<close> and \<^verbatim>\<open>k.split('_')[-1]\<close>.
\<close>

primrec find_ll_key :: "string list \<Rightarrow> (string \<times> string) option" where
  "find_ll_key [] = None"
| "find_ll_key (k # ks) =
     (if str_find k ''elbo_IW'' > - 1 then Some (k, last (str_split k CHR ''_''))
      else find_ll_key ks)"

text \<open>\<^verbatim>\<open>'{}'.format(step)\<close> for a step that may be \<^verbatim>\<open>None\<close>.\<close>

definition str_opt :: "int option \<Rightarrow> string" where
  "str_opt v = (case v of None \<Rightarrow> ''None'' | Some i \<Rightarrow> str_int i)"

text \<open>
  The summaries hold floating-point numbers, here reals; how Python prints one under
  \<^verbatim>\<open>{:.5g}\<close> or \<^verbatim>\<open>{:.3g}\<close> is the parameter \<open>format_g\<close> (precision first). The value of
  \<open>print_test_log\<close> is the line handed to \<^verbatim>\<open>print\<close>, or the \<^verbatim>\<open>KeyError\<close> of a missing
  summary.
\<close>

definition print_test_log ::
  "(nat \<Rightarrow> real \<Rightarrow> string) \<Rightarrow> (string \<times> real) list \<Rightarrow> int option \<Rightarrow> int option \<Rightarrow> error + string"
where
  "print_test_log format_g summaries step epoch =
     (let log_string = ''       '';
          log_string =
            (case epoch of
               None \<Rightarrow> log_string
             | Some ep \<Rightarrow>
                 log_string @ ''[step '' @ str_opt step @ '', epoch '' @ str_int ep @ '']   '')
      in case getitem summaries ''elbo/elbo'' of
           Inl err \<Rightarrow> Inl err
         | Inr v_elbo \<Rightarrow>
        (case getitem summaries ''elbo/recons'' of
           Inl err \<Rightarrow> Inl err
         | Inr v_recons \<Rightarrow>
        (case getitem summaries ''elbo/kl'' of
           Inl err \<Rightarrow> Inl err
         | Inr v_kl \<Rightarrow>
        (let log_string = log_string @ ''ELBO '' @ format_g 5 v_elbo @
               ''   recons: '' @ format_g 3 v_recons @ ''   KL: '' @ format_g 3 v_kl
         in case find_ll_key (map fst summaries) of
              None \<Rightarrow> Inr log_string
            | Some (ll_key, iw_samples) \<Rightarrow>
                (case getitem summaries ll_key of
                   Inl err \<Rightarrow> Inl err
                 | Inr v \<Rightarrow>
                     Inr (log_string @ ''   marginal log-likelihood ('' @ iw_samples @
                            '') '' @ format_g 5 v))))))"

subsection \<open>Notions for statements about the evaluation log line\<close>

text \<open>
  These are not translations of code: they name the parts of the line that the theorems
  speak about. \<open>after_last c s\<close> is the text of \<open>s\<close> after its last \<open>c\<close> (all of \<open>s\<close> when \<open>c\<close>
  does not occur); \<open>scalar_part\<close> is the line up to and including the three scalars;
  \<open>mll_segment\<close> is the part that reports the marginal log-likelihood under a label. That a
  key contains \<^verbatim>\<open>elbo_IW\<close> as a substring is \<open>sublist ''elbo_IW'' k\<close>.
\<close>

definition after_last :: "char \<Rightarrow> string \<Rightarrow> string" where
  "after_last c s = rev (takeWhile (\<lambda>x. x \<noteq> c) (rev s))"

definition scalar_part ::
  "(nat \<Rightarrow> real \<Rightarrow> string) \<Rightarrow> int option \<Rightarrow> int option \<Rightarrow> real \<Rightarrow> real \<Rightarrow> real \<Rightarrow> string" where
  "scalar_part format_g step epoch e r d =
     (case epoch of
        None \<Rightarrow> ''       ''
      | Some ep \<Rightarrow> ''       [step '' @ str_opt step @ '', epoch '' @ str_int ep @ '']   '') @
     ''ELBO '' @ format_g 5 e @ ''   recons: '' @ format_g 3 r @ ''   KL: '' @ format_g 3 d"

definition mll_segment :: "(nat \<Rightarrow> real \<Rightarrow> string) \<Rightarrow> string \<Rightarrow> real \<Rightarrow> string" where
  "mll_segment format_g label v =
     ''   marginal log-likelihood ('' @ label @ '') '' @ format_g 5 v"

section \<open>Tensors\<close>

text \<open>
  A tensor is a nested list; its elements are reals, so rounding is not modelled. An
  image has the dimensions channel, height, width, and a batch is a list of images. A
  nested list does not record the later dimensions of a tensor that is empty along an
  earlier one: \<open>size1\<close>, \<open>size2\<close> and \<open>size3\<close> read them from the first element and give 0
  when there is none.
\<close>

type_synonym img = "real list list list"
type_synonym batch = "img list"

definition size1 :: "'a list list \<Rightarrow> nat" where
  "size1 t = (case t of [] \<Rightarrow> 0 | a # _ \<Rightarrow> length a)"

definition size2 :: "'a list list list \<Rightarrow> nat" where
  "size2 t = (case t of [] \<Rightarrow> 0 | a # _ \<Rightarrow> size1 a)"

definition size3 :: "'a list list list list \<Rightarrow> nat" where
  "size3 t = (case t of [] \<Rightarrow> 0 | a # _ \<Rightarrow> size2 a)"

definition shape4 :: "batch \<Rightarrow> nat list" where
  "shape4 t = [length t, size1 t, size2 t, size3 t]"

text \<open>\<^verbatim>\<open>t.sum((1, 2, 3))\<close> of a batch, \<^verbatim>\<open>t.sum(1)\<close> of a matrix and \<^verbatim>\<open>t.mean()\<close> of a vector.
  The mean of an empty vector is \<^verbatim>\<open>nan\<close> in the source and \<open>0\<close> here.\<close>

definition sum_dims_123 :: "batch \<Rightarrow> real list" where
  "sum_dims_123 t = map (\<lambda>i. sum_list (map (\<lambda>c. sum_list (map sum_list c)) i)) t"

definition sum_dim_1 :: "real list list \<Rightarrow> real list" where
  "sum_dim_1 t = map sum_list t"

definition tensor_mean :: "real list \<Rightarrow> real" where
  "tensor_mean t = sum_list t / real (length t)"

text \<open>
  \<^verbatim>\<open>a - b\<close> for vectors: elementwise when the lengths agree, with a vector of one element
  broadcast against the other, and \<^verbatim>\<open>RuntimeError\<close> otherwise.
\<close>

definition tensor_sub :: "real list \<Rightarrow> real list \<Rightarrow> error + real list" where
  "tensor_sub a b =
     (if length a = length b then Inr (map2 (\<lambda>u v. u - v) a b)
      else if length b = 1 then Inr (map (\<lambda>u. u - hd b) a)
      else if length a = 1 then Inr (map (\<lambda>v. hd a - v) b)
      else Inl (RuntimeError ''The size of tensor a must match the size of tensor b''))"

text \<open>
  \<^verbatim>\<open>torch.stack([a, b])\<close> needs tensors of one shape. \<open>permute_10\<close> is
  \<^verbatim>\<open>t.permute(1, 0, 2, 3, 4)\<close>: it exchanges the first two dimensions. \<open>reshape4\<close> is
  \<^verbatim>\<open>t.reshape(d0, d1, d2, d3)\<close> of a tensor of five dimensions: the elements in row-major
  order, regrouped, when their number is \<open>d0 * d1 * d2 * d3\<close>.
\<close>

definition stack2 :: "batch \<Rightarrow> batch \<Rightarrow> error + batch list" where
  "stack2 a b =
     (if shape4 a = shape4 b then Inr [a, b]
      else Inl (RuntimeError ''stack expects each tensor to be equal size''))"

definition permute_10 :: "'a list list \<Rightarrow> 'a list list" where
  "permute_10 t = map (\<lambda>j. map (\<lambda>row. row ! j) t) [0..<size1 t]"

definition flatten3 :: "img \<Rightarrow> real list" where
  "flatten3 i = concat (map concat i)"

definition flatten4 :: "batch \<Rightarrow> real list" where
  "flatten4 t = concat (map flatten3 t)"

definition flatten5 :: "batch list \<Rightarrow> real list" where
  "flatten5 t = concat (map flatten4 t)"

definition chunks :: "nat \<Rightarrow> nat \<Rightarrow> 'a list \<Rightarrow> 'a list list" where
  "chunks k m xs = map (\<lambda>j. take m (drop (j * m) xs)) [0..<k]"

definition unflatten3 :: "nat \<Rightarrow> nat \<Rightarrow> nat \<Rightarrow> real list \<Rightarrow> img" where
  "unflatten3 c h w xs = map (chunks h w) (chunks c (h * w) xs)"

definition unflatten4 :: "nat \<Rightarrow> nat \<Rightarrow> nat \<Rightarrow> nat \<Rightarrow> real list \<Rightarrow> batch" where
  "unflatten4 k c h w xs = map (unflatten3 c h w) (chunks k (c * h * w) xs)"

definition reshape4 :: "batch list \<Rightarrow> nat \<Rightarrow> nat \<Rightarrow> nat \<Rightarrow> nat \<Rightarrow> error + batch" where
  "reshape4 t d0 d1 d2 d3 =
     (if length (flatten5 t) = d0 * d1 * d2 * d3 then Inr (unflatten4 d0 d1 d2 d3 (flatten5 t))
      else Inl (RuntimeError ''shape is invalid for input size''))"

section \<open>The model, the libraries and the world\<close>

text \<open>
  \<^verbatim>\<open>MnistVAE\<close>, \<^verbatim>\<open>torch.distributions\<close>, \<^verbatim>\<open>boilr.utils\<close> and \<^verbatim>\<open>torchvision.utils\<close> are not
  part of this file. What the methods use of them are parameters:
  \<^item> a model has a step counter, a prior, its application to a batch, which yields the
    dictionary with the keys \<^verbatim>\<open>sample\<close>, \<^verbatim>\<open>mean\<close> and \<^verbatim>\<open>qz\<close>, and \<^verbatim>\<open>sample_prior\<close>; both
    calls read and advance a state \<open>'r\<close> (the parameters and the random generator);
  \<^item> \<open>log_prob p v\<close> is \<^verbatim>\<open>Bernoulli(p).log_prob(v)\<close> and \<open>kl_divergence q p\<close> is the tensor
    of \<^verbatim>\<open>kl_divergence(q, p)\<close>, one row for each example; either may raise;
  \<^item> \<open>img_grid_pad_value\<close> is the function of that name of \<^verbatim>\<open>boilr.utils\<close>;
  \<^item> \<^verbatim>\<open>save_image\<close> is recorded: the world holds the list of the calls made, each with
    the tensor, the file name, \<^verbatim>\<open>nrow\<close> and \<^verbatim>\<open>pad_value\<close> it was given.
  The world also lists the batches the model was applied to and the arguments of the
  calls of \<^verbatim>\<open>sample_prior\<close>. Moving a tensor to a device does not change its value and is
  left out. A method returns its result, or the exception it raised, and the world it
  leaves.
\<close>

record 'q model_output =
  sample :: batch
  mean :: batch
  qz :: 'q

record ('q, 'p, 'r) vae =
  global_step :: int
  pz :: 'p
  forward :: "batch \<Rightarrow> 'r \<Rightarrow> 'q model_output \<times> 'r"
  sample_prior :: "int \<Rightarrow> 'r \<Rightarrow> batch \<times> 'r"

record ('q, 'p) library =
  log_prob :: "batch \<Rightarrow> batch \<Rightarrow> error + batch"
  kl_divergence :: "'q \<Rightarrow> 'p \<Rightarrow> error + real list list"
  img_grid_pad_value :: "batch \<Rightarrow> real"

record saved_image =
  tensor :: batch
  fp :: string
  nrow :: int
  pad_value :: real

record 'r world =
  rng :: 'r
  forward_calls :: "batch list"
  prior_calls :: "int list"
  saved :: "saved_image list"

record ('q, 'p, 'r, 'y) mnist_experiment =
  args :: "config"
  model :: "('q, 'p, 'r) vae"
  dataloaders_test :: "(batch \<times> 'y) list"

definition save_image :: "batch \<Rightarrow> string \<Rightarrow> int \<Rightarrow> real \<Rightarrow> 'r world \<Rightarrow> 'r world" where
  "save_image t f k p w =
     w\<lparr>saved := saved w @ [\<lparr>tensor = t, fp = f, nrow = k, pad_value = p\<rparr>]\<rparr>"

section \<open>The objective\<close>

subsection \<open>\<^verbatim>\<open>forward_pass\<close>\<close>

text \<open>The dictionary that \<^verbatim>\<open>forward_pass\<close> returns, one field for each key.\<close>

record forward_output =
  out_sample :: batch
  out_mean :: batch
  loss :: real
  elbo_sep :: "real list"
  elbo :: real
  recons :: real
  kl :: real

definition forward_pass ::
  "('q, 'p) library \<Rightarrow> ('q, 'p, 'r) vae \<Rightarrow> batch \<Rightarrow> 'r world \<Rightarrow> (error + forward_output) \<times> 'r world"
where
  "forward_pass L m x w =
     (case forward m x (rng w) of
        (out, r) \<Rightarrow>
          (let w = w\<lparr>rng := r, forward_calls := forward_calls w @ [x]\<rparr>
           in case log_prob L (mean out) x of
                Inl err \<Rightarrow> (Inl err, w)
              | Inr lp \<Rightarrow>
                  (let log_likelihood = sum_dims_123 lp
                   in case kl_divergence L (qz out) (pz m) of
                        Inl err \<Rightarrow> (Inl err, w)
                      | Inr kld \<Rightarrow>
                          (let kl_v = sum_dim_1 kld
                           in case tensor_sub log_likelihood kl_v of
                                Inl err \<Rightarrow> (Inl err, w)
                              | Inr elbo_sep_v \<Rightarrow>
                                  (let elbo_v = tensor_mean elbo_sep_v;
                                       loss_v = - elbo_v
                                   in (Inr \<lparr>out_sample = sample out, out_mean = mean out,
                                             loss = loss_v, elbo_sep = elbo_sep_v,
                                             elbo = elbo_v,
                                             recons = - tensor_mean log_likelihood,
                                             kl = tensor_mean kl_v\<rparr>, w))))))"

subsection \<open>Notions for statements about the objective\<close>

text \<open>
  These are not translations of code. For the tensor \<open>lp\<close> of log-probabilities,
  \<open>example_log_likelihood lp i\<close> is the sum of the entries of example \<open>i\<close> over channel,
  height and width; for the tensor \<open>kld\<close> of divergences, \<open>example_kl kld i\<close> is the sum of
  row \<open>i\<close> over the latent dimension.
\<close>

definition example_log_likelihood :: "batch \<Rightarrow> nat \<Rightarrow> real" where
  "example_log_likelihood lp i =
     (\<Sum>c<length (lp ! i). \<Sum>h<length (lp ! i ! c). \<Sum>v<length (lp ! i ! c ! h).
        lp ! i ! c ! h ! v)"

definition example_kl :: "real list list \<Rightarrow> nat \<Rightarrow> real" where
  "example_kl kld i = (\<Sum>j<length (kld ! i). kld ! i ! j)"

section \<open>Visualization\<close>

subsection \<open>\<^verbatim>\<open>save_input_and_recons\<close>\<close>

definition save_input_and_recons ::
  "('q, 'p) library \<Rightarrow> ('q, 'p, 'r, 'y) mnist_experiment \<Rightarrow> batch \<Rightarrow> string \<Rightarrow> int \<Rightarrow> 'r world \<Rightarrow>
     (error + unit) \<times> 'r world"
where
  "save_input_and_recons L e x fname n w =
     (let n_img = n ^ 2 div 2
      in if int (length x) < n_img then
           (Inl (RuntimeError (str_int n_img @ '' data points required, but given batch has size '' @
                   str_int (int (length x)) @ ''. Please use a larger batch.'')), w)
         else
           (case forward_pass L (model e) x w of
              (Inl err, w) \<Rightarrow> (Inl err, w)
            | (Inr outputs, w) \<Rightarrow>
                (let x = take (nat n_img) x;
                     recons_v = take (nat n_img) (out_sample outputs)
                 in case stack2 x recons_v of
                      Inl err \<Rightarrow> (Inl err, w)
                    | Inr imgs \<Rightarrow>
                        (let imgs = permute_10 imgs
                         in case reshape4 imgs (nat (n ^ 2)) (size1 x) (size2 x) (size3 x) of
                              Inl err \<Rightarrow> (Inl err, w)
                            | Inr imgs \<Rightarrow>
                                (let pad = img_grid_pad_value L imgs
                                 in (Inr (), save_image imgs fname n pad w))))))"

subsection \<open>\<^verbatim>\<open>additional_testing\<close>\<close>

text \<open>
  \<^verbatim>\<open>next(iter(self.dataloaders.test))\<close> is the first pair of the test loader, or
  \<^verbatim>\<open>StopIteration\<close> when the loader is empty.
\<close>

definition additional_testing ::
  "('q, 'p) library \<Rightarrow> ('q, 'p, 'r, 'y) mnist_experiment \<Rightarrow> string \<Rightarrow> 'r world \<Rightarrow> (error + unit) \<times> 'r world"
where
  "additional_testing L e img_folder w =
     (let step = global_step (model e)
      in if \<not> dry_run (args e) then
           (let n = 8;
                (smp, r) = sample_prior (model e) (n ^ 2) (rng w);
                w = w\<lparr>rng := r, prior_calls := prior_calls w @ [n ^ 2]\<rparr>;
                fname = path_join img_folder (''sample_'' @ str_int step @ ''.png'');
                pad = img_grid_pad_value L smp;
                w = save_image smp fname n pad w
            in case dataloaders_test e of
                 [] \<Rightarrow> (Inl StopIteration, w)
               | (x, _) # _ \<Rightarrow>
                   (let fname = path_join img_folder (''reconstruction_'' @ str_int step @ ''.png'')
                    in save_input_and_recons L e x fname n w))
         else (Inr (), w))"

subsection \<open>Notions for statements about the grids\<close>

text \<open>
  These are not translations of code. \<open>rect4 c h w t\<close> says that every image of the batch
  \<open>t\<close> has \<open>c\<close> channels of \<open>h\<close> rows of \<open>w\<close> pixels. \<open>interleave\<close> places the elements of two
  lists in turn.
\<close>

definition rect3 :: "nat \<Rightarrow> nat \<Rightarrow> nat \<Rightarrow> img \<Rightarrow> bool" where
  "rect3 c h w i \<longleftrightarrow> length i = c \<and> (\<forall>r\<in>set i. length r = h \<and> (\<forall>p\<in>set r. length p = w))"

definition rect4 :: "nat \<Rightarrow> nat \<Rightarrow> nat \<Rightarrow> batch \<Rightarrow> bool" where
  "rect4 c h w t \<longleftrightarrow> (\<forall>i\<in>set t. rect3 c h w i)"

fun interleave :: "'a list \<Rightarrow> 'a list \<Rightarrow> 'a list" where
  "interleave (a # as) (b # bs) = a # b # interleave as bs"
| "interleave as bs = []"

section \<open>Example values\<close>

text \<open>
  A library, a model, a world and an experiment on which the theorems below are
  instantiated. The batch \<open>ex_batch k\<close> holds \<open>k\<close> images of one pixel, image \<open>i\<close> with the
  value \<open>i\<close>; the model reconstructs a pixel \<open>u\<close> as \<open>u + 100\<close>.
\<close>

definition ex_batch :: "nat \<Rightarrow> batch" where
  "ex_batch k = map (\<lambda>i. [[[real i]]]) [0..<k]"

definition ex_library :: "(nat, unit) library" where
  "ex_library =
     \<lparr>log_prob = (\<lambda>p v. Inr v),
      kl_divergence = (\<lambda>q p. Inr (replicate q [1, 1])),
      img_grid_pad_value = (\<lambda>t. 0)\<rparr>"

definition ex_model :: "(nat, unit, nat) vae" where
  "ex_model =
     \<lparr>global_step = 7, pz = (),
      forward = (\<lambda>x r. (\<lparr>sample = map (map (map (map (\<lambda>u. u + 100)))) x, mean = x,
                            qz = length x\<rparr>, r + 1)),
      sample_prior = (\<lambda>k r. (replicate (nat k) [[[0]]], r + 1))\<rparr>"

definition ex_world :: "nat world" where
  "ex_world = \<lparr>rng = 0, forward_calls = [], prior_calls = [], saved = []\<rparr>"

definition ex_experiment :: "bool \<Rightarrow> nat \<Rightarrow> (nat, unit, nat, unit) mnist_experiment" where
  "ex_experiment dry k =
     \<lparr>args = \<lparr>seed = 54321, additional_descr = [], dry_run = dry,
               loglik_interval = 50000, test_log_interval = 1000\<rparr>,
      model = ex_model, dataloaders_test = [(ex_batch k, ())]\<rparr>"

section \<open>Run description\<close>

lemma str_int_54321: "str_int 54321 = ''54321''"
  by (simp add: str_int_def str_nat.simps digit_char_def)

text \<open>
  C7. For every configuration, \<^verbatim>\<open>_make_run_description\<close> returns \<open>seed<seed>\<close> when the
  free-text tag is empty and \<open>seed<seed>,<tag>\<close> when it is not; for seed 54321 the two
  results are \<open>seed54321\<close> and, with the tag \<open>exp1\<close>, \<open>seed54321,exp1\<close>.
\<close>

theorem make_run_description_format:
  "(additional_descr a = [] \<longrightarrow> make_run_description a = ''seed'' @ str_int (seed a)) \<and>
   (additional_descr a \<noteq> [] \<longrightarrow>
      make_run_description a = ''seed'' @ str_int (seed a) @ '','' @ additional_descr a) \<and>
   (seed a = 54321 \<and> additional_descr a = [] \<longrightarrow> make_run_description a = ''seed54321'') \<and>
   (seed a = 54321 \<and> additional_descr a = ''exp1'' \<longrightarrow>
      make_run_description a = ''seed54321,exp1'')"
  by (simp add: make_run_description_def str_int_54321)

theorem make_run_description_format_witness:
  "make_run_description
     \<lparr>seed = 54321, additional_descr = ''exp1'', dry_run = False,
      loglik_interval = 50000, test_log_interval = 1000\<rparr> = ''seed54321,exp1'' \<and>
   make_run_description
     \<lparr>seed = 54321, additional_descr = [], dry_run = False,
      loglik_interval = 50000, test_log_interval = 1000\<rparr> = ''seed54321''"
  using make_run_description_format
    [of "\<lparr>seed = 54321, additional_descr = ''exp1'', dry_run = False,
          loglik_interval = 50000, test_log_interval = 1000\<rparr>"]
    make_run_description_format
    [of "\<lparr>seed = 54321, additional_descr = [], dry_run = False,
          loglik_interval = 50000, test_log_interval = 1000\<rparr>"]
  by (simp add: str_int_54321)

section \<open>Configuration check\<close>

text \<open>
  C2, the claim as stated. The claim reads: every parsed configuration whose
  marginal-log-likelihood interval is an exact multiple of the test-logging interval is
  returned. Zero is an exact multiple of zero, but for a zero test-logging interval the
  remainder itself raises \<^verbatim>\<open>ZeroDivisionError\<close>, so the configuration with both
  intervals zero satisfies the invariant and is not returned.
\<close>

theorem parse_args_zero_interval_counterexample:
  "test_log_interval \<lparr>seed = 54321, additional_descr = [], dry_run = False,
      loglik_interval = 0, test_log_interval = 0\<rparr>
     dvd loglik_interval \<lparr>seed = 54321, additional_descr = [], dry_run = False,
      loglik_interval = 0, test_log_interval = 0\<rparr> \<and>
   parse_args \<lparr>seed = 54321, additional_descr = [], dry_run = False,
      loglik_interval = 0, test_log_interval = 0\<rparr> = Inl ZeroDivisionError"
  by (simp add: parse_args_def)

text \<open>
  C2, amended. For a zero test-logging interval \<^verbatim>\<open>_parse_args\<close> aborts with
  \<^verbatim>\<open>ZeroDivisionError\<close> whatever the other interval is. For a non-zero test-logging
  interval it aborts with \<^verbatim>\<open>AssertionError\<close> when the marginal-log-likelihood interval
  is not an exact multiple of it, and returns the parsed arguments unchanged when it is.
\<close>

theorem parse_args_enforces_multiple:
  "(test_log_interval a = 0 \<longrightarrow> parse_args a = Inl ZeroDivisionError) \<and>
   (test_log_interval a \<noteq> 0 \<and> \<not> test_log_interval a dvd loglik_interval a \<longrightarrow>
      parse_args a = Inl AssertionError) \<and>
   (test_log_interval a \<noteq> 0 \<and> test_log_interval a dvd loglik_interval a \<longrightarrow>
      parse_args a = Inr a)"
  by (simp add: parse_args_def dvd_eq_mod_eq_0)

theorem parse_args_enforces_multiple_witness:
  "parse_args \<lparr>seed = 54321, additional_descr = [], dry_run = False,
      loglik_interval = 50000, test_log_interval = 1000\<rparr> =
     Inr \<lparr>seed = 54321, additional_descr = [], dry_run = False,
      loglik_interval = 50000, test_log_interval = 1000\<rparr> \<and>
   parse_args \<lparr>seed = 54321, additional_descr = [], dry_run = False,
      loglik_interval = 1500, test_log_interval = 1000\<rparr> = Inl AssertionError \<and>
   parse_args \<lparr>seed = 54321, additional_descr = [], dry_run = False,
      loglik_interval = 7, test_log_interval = 0\<rparr> = Inl ZeroDivisionError"
  using parse_args_enforces_multiple
    [of "\<lparr>seed = 54321, additional_descr = [], dry_run = False,
          loglik_interval = 50000, test_log_interval = 1000\<rparr>"]
    parse_args_enforces_multiple
    [of "\<lparr>seed = 54321, additional_descr = [], dry_run = False,
          loglik_interval = 1500, test_log_interval = 1000\<rparr>"]
    parse_args_enforces_multiple
    [of "\<lparr>seed = 54321, additional_descr = [], dry_run = False,
          loglik_interval = 7, test_log_interval = 0\<rparr>"]
  by simp

section \<open>The evaluation log line\<close>

lemma take_eq_iff_prefix: "take (length sub) s = sub \<longleftrightarrow> prefix sub s"
  by (metis append_eq_conv_conj prefix_def)

lemma find_from_sublist: "0 \<le> i \<Longrightarrow> (find_from sub s i > - 1) = sublist sub s"
proof (induction s arbitrary: i)
  case Nil
  then show ?case by auto
next
  case (Cons c cs)
  have "take (length sub) (c # cs) = sub \<longleftrightarrow> prefix sub (c # cs)"
    by (rule take_eq_iff_prefix)
  with Cons show ?case
    by (simp add: sublist_Cons_right del: take_Suc_Cons)
qed

lemma str_find_sublist: "(str_find k sub > - 1) = sublist sub k"
  by (simp add: str_find_def find_from_sublist)

lemma str_split_nonempty: "str_split s c \<noteq> []"
  by (induction s) auto

lemma str_split_no_sep: "c \<notin> set s \<Longrightarrow> str_split s c = [s]"
  by (induction s) auto

lemma str_split_sep: "c \<in> set s \<Longrightarrow> tl (str_split s c) \<noteq> []"
  by (induction s) (auto simp: str_split_nonempty)

lemma takeWhile_snoc_stop: "\<not> P c \<Longrightarrow> takeWhile P (xs @ [c]) = takeWhile P xs"
  by (induction xs) auto

lemma after_last_none: "c \<notin> set s \<Longrightarrow> after_last c s = s"
proof -
  assume "c \<notin> set s"
  then have "takeWhile (\<lambda>x. x \<noteq> c) (rev s) = rev s"
    by (auto simp: takeWhile_eq_all_conv)
  then show ?thesis
    unfolding after_last_def by (metis rev_rev_ident)
qed

lemma after_last_Cons:
  "after_last c (a # s) = (if c \<in> set s then after_last c s else if a = c then s else a # s)"
proof (cases "c \<in> set s")
  case True
  then show ?thesis
    by (simp add: after_last_def takeWhile_append1)
next
  case False
  show ?thesis
  proof (cases "a = c")
    case True
    have "after_last c (c # s) = after_last c s"
      by (simp add: after_last_def takeWhile_snoc_stop)
    with True False show ?thesis
      by (simp add: after_last_none)
  next
    case neq: False
    with False have "c \<notin> set (a # s)" by auto
    then have "after_last c (a # s) = a # s" by (rule after_last_none)
    with False neq show ?thesis by simp
  qed
qed

lemma last_str_split: "last (str_split s c) = after_last c s"
proof (induction s)
  case Nil
  then show ?case by (simp add: after_last_def)
next
  case (Cons a s)
  show ?case
  proof (cases "c \<in> set s")
    case True
    then have "tl (str_split s c) \<noteq> []" by (rule str_split_sep)
    with Cons True show ?thesis
      by (auto simp: after_last_Cons str_split_nonempty last_tl)
  next
    case False
    then show ?thesis
      by (simp add: after_last_Cons str_split_no_sep)
  qed
qed

lemma find_ll_key_find:
  "find_ll_key ks = map_option (\<lambda>k. (k, after_last CHR ''_'' k)) (List.find (sublist ''elbo_IW'') ks)"
  by (induction ks) (simp_all add: str_find_sublist last_str_split)

lemma find_ll_key_in_keys: "find_ll_key ks = Some (k, l) \<Longrightarrow> k \<in> set ks"
  by (induction ks) (auto split: if_splits)

lemma getitem_key: "k \<in> fst ` set S \<Longrightarrow> getitem S k = Inr (the (map_of S k))"
  by (auto simp: getitem_def map_of_eq_None_iff split: option.splits)

lemma print_test_log_line:
  assumes "map_of S ''elbo/elbo'' = Some e" and "map_of S ''elbo/recons'' = Some r"
    and "map_of S ''elbo/kl'' = Some d"
  shows "print_test_log fmt S step epoch =
     Inr (scalar_part fmt step epoch e r d @
        (case find_ll_key (map fst S) of
           None \<Rightarrow> []
         | Some (k, l) \<Rightarrow> mll_segment fmt l (the (map_of S k))))"
proof (cases "find_ll_key (map fst S)")
  case None
  with assms show ?thesis
    by (simp add: print_test_log_def getitem_def scalar_part_def split: option.splits)
next
  case (Some p)
  obtain k l where p: "p = (k, l)" by (cases p)
  with Some have "k \<in> fst ` set S"
    using find_ll_key_in_keys [of "map fst S" k l] by simp
  then have "getitem S k = Inr (the (map_of S k))" by (rule getitem_key)
  with assms Some p show ?thesis
    by (simp add: print_test_log_def getitem_def scalar_part_def mll_segment_def
        split: option.splits)
qed

lemma find_ll_key_append:
  "\<forall>k\<in>set pre. \<not> sublist ''elbo_IW'' k \<Longrightarrow> find_ll_key (pre @ ks) = find_ll_key ks"
  by (induction pre) (simp_all add: str_find_sublist)

lemma find_ll_key_none: "\<forall>k\<in>set ks. \<not> sublist ''elbo_IW'' k \<Longrightarrow> find_ll_key ks = None"
  by (induction ks) (simp_all add: str_find_sublist)

lemma sublist_iw_key: "sublist ''elbo_IW'' (''elbo_IW_'' @ K)"
  by (simp add: sublist_code)

lemma after_last_iw_key: "CHR ''_'' \<notin> set K \<Longrightarrow> after_last CHR ''_'' (''elbo_IW_'' @ K) = K"
proof -
  assume "CHR ''_'' \<notin> set K"
  then have "\<forall>x\<in>set (rev K). x \<noteq> CHR ''_''" by auto
  then have "takeWhile (\<lambda>x. x \<noteq> CHR ''_'') (rev K @ ''_WI_oble'') = rev K"
    using takeWhile_append2 [of "rev K" "\<lambda>x. x \<noteq> CHR ''_''" "''_WI_oble''"] by simp
  then show ?thesis by (simp add: after_last_def)
qed

lemma map_of_first_match:
  assumes "\<forall>k\<in>fst ` set pre. \<not> sublist ''elbo_IW'' k" and "sublist ''elbo_IW'' key"
  shows "map_of (pre @ (key, v) # post) key = Some v"
proof -
  from assms have "key \<notin> fst ` set pre" by auto
  then have "map_of pre key = None" by (simp add: map_of_eq_None_iff)
  then show ?thesis by (simp add: map_add_def)
qed

text \<open>
  C6. \<^verbatim>\<open>print_test_log\<close> finds the importance-weighted entry by a scan over the keys in
  iteration order: it takes the first key that contains \<^verbatim>\<open>elbo_IW\<close> anywhere in it
  (\<open>List.find\<close> returns the first element that satisfies the predicate), and the label it
  prints is the text after the last underscore of that key. The three scalar summaries
  are assumed present, as otherwise the method raises \<^verbatim>\<open>KeyError\<close> before the scan.
\<close>

theorem print_test_log_first_match:
  assumes "map_of S ''elbo/elbo'' = Some e" and "map_of S ''elbo/recons'' = Some r"
    and "map_of S ''elbo/kl'' = Some d"
  shows "print_test_log fmt S step epoch =
     Inr (scalar_part fmt step epoch e r d @
        (case List.find (sublist ''elbo_IW'') (map fst S) of
           None \<Rightarrow> []
         | Some k \<Rightarrow> mll_segment fmt (after_last CHR ''_'' k) (the (map_of S k))))"
  using print_test_log_line [OF assms, of fmt step epoch]
  by (simp add: find_ll_key_find split: option.splits)

theorem print_test_log_first_match_witness:
  "print_test_log (\<lambda>p v. ''#'')
     [(''elbo/elbo'', 1), (''elbo/recons'', 2), (''elbo/kl'', 3),
      (''x_elbo_IWAE_v2'', 4), (''elbo_IW_100'', 5)] None None =
   Inr ''       ELBO #   recons: #   KL: #   marginal log-likelihood (v2) #''"
  using print_test_log_first_match
    [of "[(''elbo/elbo'', 1), (''elbo/recons'', 2), (''elbo/kl'', 3),
          (''x_elbo_IWAE_v2'', 4), (''elbo_IW_100'', 5)]" 1 2 3 "\<lambda>p v. ''#''" None None]
  by (simp add: scalar_part_def mll_segment_def after_last_def sublist_code)

text \<open>
  C5, the claim as stated. The claim reads: whenever the summaries contain an
  importance-weighted key for \<open>K\<close> samples, the line reports the estimate labelled \<open>K\<close>.
  With two such keys only the first is reported: below, the summaries hold
  \<^verbatim>\<open>elbo_IW_10\<close> before \<^verbatim>\<open>elbo_IW_100\<close>, the formatting function agrees with Python's
  \<^verbatim>\<open>g\<close> formatting on the five values, and the printed line contains neither the label
  \<open>100\<close> nor the estimate stored under \<^verbatim>\<open>elbo_IW_100\<close>.
\<close>

theorem print_test_log_second_iw_key_counterexample:
  "getitem [(''elbo/elbo'', - 98), (''elbo/recons'', 89), (''elbo/kl'', 9),
            (''elbo_IW_10'', - 95), (''elbo_IW_100'', - 94 :: real)] ''elbo_IW_100'' = Inr (- 94) \<and>
   print_test_log
     (\<lambda>p v. if v = - 98 then ''-98'' else if v = 89 then ''89'' else if v = 9 then ''9''
             else if v = - 95 then ''-95'' else ''-94'')
     [(''elbo/elbo'', - 98), (''elbo/recons'', 89), (''elbo/kl'', 9),
      (''elbo_IW_10'', - 95), (''elbo_IW_100'', - 94)] None None =
   Inr ''       ELBO -98   recons: 89   KL: 9   marginal log-likelihood (10) -95'' \<and>
   str_find ''       ELBO -98   recons: 89   KL: 9   marginal log-likelihood (10) -95''
     ''100'' = - 1 \<and>
   str_find ''       ELBO -98   recons: 89   KL: 9   marginal log-likelihood (10) -95''
     ''-94'' = - 1"
  by (simp add: print_test_log_def getitem_def str_find_def)

text \<open>
  C5, amended. Let the summaries hold the three scalars. If the first key in iteration
  order that contains \<^verbatim>\<open>elbo_IW\<close> is \<^verbatim>\<open>elbo_IW_K\<close>, with no underscore in \<open>K\<close>, the
  printed line is the three scalars followed by the marginal log-likelihood stored under
  that key, labelled \<open>K\<close>. If no key contains \<^verbatim>\<open>elbo_IW\<close>, the printed line is the three
  scalars and nothing else.
\<close>

theorem print_test_log_iw_segment:
  assumes "map_of S ''elbo/elbo'' = Some e" and "map_of S ''elbo/recons'' = Some r"
    and "map_of S ''elbo/kl'' = Some d"
  shows "(S = pre @ (''elbo_IW_'' @ K, v) # post \<and>
          (\<forall>k\<in>fst ` set pre. \<not> sublist ''elbo_IW'' k) \<and> CHR ''_'' \<notin> set K \<longrightarrow>
            print_test_log fmt S step epoch =
              Inr (scalar_part fmt step epoch e r d @ mll_segment fmt K v)) \<and>
         ((\<forall>k\<in>fst ` set S. \<not> sublist ''elbo_IW'' k) \<longrightarrow>
            print_test_log fmt S step epoch = Inr (scalar_part fmt step epoch e r d))"
proof (intro conjI impI)
  assume h: "S = pre @ (''elbo_IW_'' @ K, v) # post \<and>
          (\<forall>k\<in>fst ` set pre. \<not> sublist ''elbo_IW'' k) \<and> CHR ''_'' \<notin> set K"
  then have pre: "\<forall>k\<in>set (map fst pre). \<not> sublist ''elbo_IW'' k" by simp
  have "find_ll_key (map fst S) =
      find_ll_key ((''elbo_IW_'' @ K) # map fst post)"
    using h find_ll_key_append [OF pre, of "(''elbo_IW_'' @ K) # map fst post"] by simp
  also have "\<dots> = Some (''elbo_IW_'' @ K, after_last CHR ''_'' (''elbo_IW_'' @ K))"
    using sublist_iw_key [of K]
    by (simp only: find_ll_key.simps str_find_sublist last_str_split if_True)
  also have "after_last CHR ''_'' (''elbo_IW_'' @ K) = K"
    using h by (intro after_last_iw_key) simp
  finally have key: "find_ll_key (map fst S) = Some (''elbo_IW_'' @ K, K)" .
  have "map_of S (''elbo_IW_'' @ K) = Some v"
    using h map_of_first_match [of pre "''elbo_IW_'' @ K" v post] sublist_iw_key [of K]
    by simp
  with key show "print_test_log fmt S step epoch =
      Inr (scalar_part fmt step epoch e r d @ mll_segment fmt K v)"
    using print_test_log_line [OF assms, of fmt step epoch] by simp
next
  assume "\<forall>k\<in>fst ` set S. \<not> sublist ''elbo_IW'' k"
  then have "find_ll_key (map fst S) = None"
    by (intro find_ll_key_none) simp
  then show "print_test_log fmt S step epoch = Inr (scalar_part fmt step epoch e r d)"
    using print_test_log_line [OF assms, of fmt step epoch] by simp
qed

theorem print_test_log_iw_segment_witness:
  "print_test_log (\<lambda>p v. ''#'')
     [(''elbo/elbo'', 1), (''elbo/recons'', 2), (''elbo/kl'', 3), (''elbo_IW_100'', 5)]
     (Some 3) (Some 1) =
   Inr ''       [step 3, epoch 1]   ELBO #   recons: #   KL: #   marginal log-likelihood (100) #'' \<and>
   print_test_log (\<lambda>p v. ''#'')
     [(''elbo/elbo'', 1), (''elbo/recons'', 2), (''elbo/kl'', 3)] None None =
   Inr ''       ELBO #   recons: #   KL: #''"
  using print_test_log_iw_segment
    [of "[(''elbo/elbo'', 1), (''elbo/recons'', 2), (''elbo/kl'', 3), (''elbo_IW_100'', 5)]"
        1 2 3 "[(''elbo/elbo'', 1), (''elbo/recons'', 2), (''elbo/kl'', 3)]" "''100''" 5 "[]"
        "\<lambda>p v. ''#''" "Some 3" "Some 1"]
    print_test_log_iw_segment
    [of "[(''elbo/elbo'', 1), (''elbo/recons'', 2), (''elbo/kl'', 3)]"
        1 2 3 "[]" "[]" 0 "[]" "\<lambda>p v. ''#''" None None]
  by (simp add: scalar_part_def mll_segment_def sublist_code str_opt_def str_int_def
      str_nat.simps digit_char_def)

section \<open>Visualization in a dry run\<close>

text \<open>
  C9. When the dry-run flag is set, \<^verbatim>\<open>additional_testing\<close> returns normally and leaves
  the world as it found it: no call of \<^verbatim>\<open>save_image\<close>, no call of \<^verbatim>\<open>sample_prior\<close>, no
  application of the model, and the state of the model and of the random generator
  unchanged.
\<close>

theorem additional_testing_dry_run:
  "dry_run (args e) \<Longrightarrow> additional_testing L e img_folder w = (Inr (), w)"
  by (simp add: additional_testing_def)

theorem additional_testing_dry_run_witness:
  "additional_testing ex_library (ex_experiment True 40) ''imgs'' ex_world = (Inr (), ex_world)"
  using additional_testing_dry_run [of "ex_experiment True 40" ex_library "''imgs''" ex_world]
  by (simp add: ex_experiment_def)

section \<open>Too small a batch for the grid\<close>

lemma str_int_32: "str_int 32 = ''32''"
  by (simp add: str_int_def str_nat.simps digit_char_def)

lemma str_int_31: "str_int 31 = ''31''"
  by (simp add: str_int_def str_nat.simps digit_char_def)

lemma ex_batch_4: "ex_batch 4 = [[[[0]]], [[[1]]], [[[2]]], [[[3]]]]"
  by (simp add: ex_batch_def eval_nat_numeral)

text \<open>
  C3, the claim as stated. The claim reads: for every grid side \<open>n\<close>, a batch of fewer
  than \<open>n * n / 2\<close> examples fails fast, with a message that names the required number
  and the size of the batch, before any forward pass. The guard of the source compares the
  size of the batch with \<^verbatim>\<open>n ** 2 // 2\<close>. For \<open>n = 3\<close> and a batch of 4 examples, 4 is
  less than 9 / 2 and not less than \<^verbatim>\<open>9 // 2\<close>: the guard does not fire, the model is
  applied to the batch, and the call fails only when 8 images are reshaped into 9, with
  the error of \<^verbatim>\<open>reshape\<close>, which names neither number.
\<close>

theorem save_input_and_recons_odd_side_counterexample:
  "real (length (ex_batch 4)) < 3 ^ 2 / 2 \<and>
   save_input_and_recons ex_library (ex_experiment False 4) (ex_batch 4) ''r.png'' 3 ex_world =
     (Inl (RuntimeError ''shape is invalid for input size''),
      ex_world\<lparr>rng := 1, forward_calls := [ex_batch 4]\<rparr>)"
  by (simp add: ex_batch_4 save_input_and_recons_def forward_pass_def ex_experiment_def
      ex_model_def ex_library_def ex_world_def tensor_sub_def sum_dims_123_def sum_dim_1_def
      stack2_def shape4_def size1_def size2_def size3_def permute_10_def reshape4_def
      flatten5_def flatten4_def flatten3_def Let_def)

text \<open>
  C3, amended. The number of examples required for a grid of side \<open>n\<close> is
  \<^verbatim>\<open>n ** 2 // 2\<close>, which is 32 for \<open>n = 8\<close>. For a batch of fewer examples than that,
  \<^verbatim>\<open>save_input_and_recons\<close> raises \<^verbatim>\<open>RuntimeError\<close> with a message that names the
  required number and the size of the batch, and the world is the one it was called in:
  nothing was written and the model was not applied. For \<open>n = 8\<close> and 31 examples the
  message names 32 and 31.
\<close>

theorem save_input_and_recons_small_batch:
  "(int (length x) < n ^ 2 div 2 \<longrightarrow>
      save_input_and_recons L e x fname n w =
        (Inl (RuntimeError (str_int (n ^ 2 div 2) @
           '' data points required, but given batch has size '' @
           str_int (int (length x)) @ ''. Please use a larger batch.'')), w)) \<and>
   (n = 8 \<and> length x = 31 \<longrightarrow>
      save_input_and_recons L e x fname n w =
        (Inl (RuntimeError
           ''32 data points required, but given batch has size 31. Please use a larger batch.''),
         w))"
  by (simp add: save_input_and_recons_def str_int_32 str_int_31)

theorem save_input_and_recons_small_batch_witness:
  "save_input_and_recons ex_library (ex_experiment False 31) (ex_batch 31) ''r.png'' 8 ex_world =
     (Inl (RuntimeError
        ''32 data points required, but given batch has size 31. Please use a larger batch.''),
      ex_world)"
  using save_input_and_recons_small_batch
    [of "ex_batch 31" 8 ex_library "ex_experiment False 31" "''r.png''" ex_world]
  by (simp add: ex_batch_def str_int_32 str_int_31)

section \<open>The evidence lower bound\<close>

lemma sum_list_nth: "sum_list xs = (\<Sum>i<length xs. xs ! i)" for xs :: "real list"
  by (simp add: sum_list_sum_nth atLeast0LessThan)

lemma sum_list_map_nth: "sum_list (map f xs) = (\<Sum>i<length xs. f (xs ! i))" for f :: "'a \<Rightarrow> real"
  using sum_list_nth [of "map f xs"] by simp

lemma sum_dims_123_nth:
  "i < length lp \<Longrightarrow> sum_dims_123 lp ! i = example_log_likelihood lp i"
  by (simp add: sum_dims_123_def example_log_likelihood_def sum_list_map_nth sum_list_nth)

lemma sum_dim_1_nth: "i < length kld \<Longrightarrow> sum_dim_1 kld ! i = example_kl kld i"
  by (simp add: sum_dim_1_def example_kl_def sum_list_nth)

lemma tensor_mean_nth: "tensor_mean xs = (\<Sum>i<length xs. xs ! i) / real (length xs)"
  by (simp add: tensor_mean_def sum_list_nth)

lemma tensor_sub_same_length:
  "length a = length b \<Longrightarrow> tensor_sub a b = Inr (map2 (\<lambda>u v. u - v) a b)"
  by (simp add: tensor_sub_def)

text \<open>
  C1. Let the model return \<open>out\<close> on the batch \<open>x\<close>, let \<open>lp\<close> be the Bernoulli
  log-probability of \<open>x\<close> under the decoder mean and \<open>kld\<close> the divergence from \<open>qz\<close> to the
  prior of the model, with one row for each example of a batch that is not empty. Then
  \<^verbatim>\<open>forward_pass\<close> returns a mapping in which \<open>elbo_sep\<close> holds, for each example, the
  log-probability summed over channel, height and width minus the divergence summed over
  the latent dimension; \<open>elbo\<close> is the mean of \<open>elbo_sep\<close> over the batch; \<open>loss\<close> is the
  negation of \<open>elbo\<close>; \<open>recons\<close> is the negation of the mean log-likelihood of an example;
  and \<open>kl\<close> is the mean divergence of an example. The mapping also holds the sample and
  the mean of the model. That the decoder mean lies strictly between 0 and 1 is what
  makes the log-probabilities finite in floating point; over the reals the equations
  hold for every \<open>lp\<close>, so the theorem does not need it. The mean of an empty tensor is
  \<^verbatim>\<open>nan\<close> in the source, hence the batch is taken non-empty.
\<close>

theorem forward_pass_elbo:
  assumes "forward m x (rng w) = (out, r)"
    and "log_prob L (mean out) x = Inr lp"
    and "kl_divergence L (qz out) (pz m) = Inr kld"
    and "length kld = length lp" and "lp \<noteq> []"
  shows "\<exists>res. forward_pass L m x w =
             (Inr res, w\<lparr>rng := r, forward_calls := forward_calls w @ [x]\<rparr>) \<and>
           out_sample res = sample out \<and> out_mean res = mean out \<and>
           length (elbo_sep res) = length lp \<and>
           (\<forall>i<length lp.
              elbo_sep res ! i = example_log_likelihood lp i - example_kl kld i) \<and>
           elbo res = (\<Sum>i<length lp. elbo_sep res ! i) / real (length lp) \<and>
           loss res = - elbo res \<and>
           recons res = - ((\<Sum>i<length lp. example_log_likelihood lp i) / real (length lp)) \<and>
           kl res = (\<Sum>i<length lp. example_kl kld i) / real (length lp)"
proof -
  let ?ll = "sum_dims_123 lp" and ?kl = "sum_dim_1 kld"
  let ?sep = "map2 (\<lambda>u v. u - v) ?ll ?kl"
  let ?res = "\<lparr>out_sample = sample out, out_mean = mean out, loss = - tensor_mean ?sep,
               elbo_sep = ?sep, elbo = tensor_mean ?sep, recons = - tensor_mean ?ll,
               kl = tensor_mean ?kl\<rparr>"
  have len: "length ?ll = length lp" "length ?kl = length lp"
    using assms(4) by (simp_all add: sum_dims_123_def sum_dim_1_def)
  then have sub: "tensor_sub ?ll ?kl = Inr ?sep"
    by (simp add: tensor_sub_same_length)
  have run: "forward_pass L m x w =
      (Inr ?res, w\<lparr>rng := r, forward_calls := forward_calls w @ [x]\<rparr>)"
    using assms(1-3) sub by (simp add: forward_pass_def Let_def)
  have sep_len: "length ?sep = length lp"
    using len by simp
  have sep_nth: "?sep ! i = example_log_likelihood lp i - example_kl kld i"
    if "i < length lp" for i
    using that len assms(4) by (simp add: sum_dims_123_nth sum_dim_1_nth)
  have ll_sum: "(\<Sum>i<length lp. ?ll ! i) = (\<Sum>i<length lp. example_log_likelihood lp i)"
    by (rule sum.cong) (simp_all add: sum_dims_123_nth)
  have kl_sum: "(\<Sum>i<length lp. ?kl ! i) = (\<Sum>i<length lp. example_kl kld i)"
    by (rule sum.cong) (simp_all add: sum_dim_1_nth assms(4))
  have "elbo ?res = (\<Sum>i<length lp. elbo_sep ?res ! i) / real (length lp)"
    using tensor_mean_nth [of ?sep] sep_len by simp
  moreover have "recons ?res = - ((\<Sum>i<length lp. example_log_likelihood lp i) / real (length lp))"
    using tensor_mean_nth [of ?ll] len ll_sum by simp
  moreover have "kl ?res = (\<Sum>i<length lp. example_kl kld i) / real (length lp)"
    using tensor_mean_nth [of ?kl] len kl_sum by simp
  ultimately show ?thesis
    using run sep_len sep_nth by (intro exI [of _ ?res]) simp
qed

lemma ex_batch_2: "ex_batch 2 = [[[[0]]], [[[1]]]]"
  by (simp add: ex_batch_def numeral_2_eq_2)

theorem forward_pass_elbo_witness:
  "\<exists>res. forward_pass ex_library ex_model (ex_batch 2) ex_world =
            (Inr res, ex_world\<lparr>rng := 1, forward_calls := [ex_batch 2]\<rparr>) \<and>
          elbo_sep res ! 0 = - 2 \<and> elbo_sep res ! 1 = - 1 \<and> length (elbo_sep res) = 2 \<and>
          elbo res = - 3 / 2 \<and> loss res = 3 / 2 \<and> recons res = - 1 / 2 \<and> kl res = 2"
proof -
  have ll: "example_log_likelihood (ex_batch 2) 0 = 0" "example_log_likelihood (ex_batch 2) 1 = 1"
    by (simp_all add: example_log_likelihood_def ex_batch_2)
  have kls: "example_kl (replicate 2 [1, 1]) 0 = 2" "example_kl (replicate 2 [1, 1]) 1 = 2"
    by (simp_all add: example_kl_def lessThan_Suc numeral_2_eq_2)
  have two: "{..<2::nat} = {0, 1}" by auto
  from forward_pass_elbo
    [of ex_model "ex_batch 2" ex_world
        "\<lparr>sample = map (map (map (map (\<lambda>u. u + 100)))) (ex_batch 2), mean = ex_batch 2, qz = 2\<rparr>"
        1 ex_library "ex_batch 2" "replicate 2 [1, 1]"]
  obtain res where res:
    "forward_pass ex_library ex_model (ex_batch 2) ex_world =
       (Inr res, ex_world\<lparr>rng := 1, forward_calls := forward_calls ex_world @ [ex_batch 2]\<rparr>)"
    "\<forall>i<length (ex_batch 2).
       elbo_sep res ! i = example_log_likelihood (ex_batch 2) i - example_kl (replicate 2 [1, 1]) i"
    "length (elbo_sep res) = length (ex_batch 2)"
    "elbo res = (\<Sum>i<length (ex_batch 2). elbo_sep res ! i) / real (length (ex_batch 2))"
    "loss res = - elbo res"
    "recons res = - ((\<Sum>i<length (ex_batch 2). example_log_likelihood (ex_batch 2) i) /
        real (length (ex_batch 2)))"
    "kl res = (\<Sum>i<length (ex_batch 2). example_kl (replicate 2 [1, 1]) i) /
        real (length (ex_batch 2))"
    by (auto simp: ex_model_def ex_library_def ex_world_def ex_batch_2)
  have len: "length (ex_batch 2) = 2" by (simp add: ex_batch_2)
  from res(2) len have e0: "elbo_sep res ! 0 = - 2" and e1: "elbo_sep res ! 1 = - 1"
    using ll kls by simp_all
  show ?thesis
    using res(1,3,4,5,6,7) e0 e1 ll kls
    by (intro exI [of _ res]) (simp add: len two ex_world_def)
qed

section \<open>The grid of inputs and reconstructions\<close>

subsection \<open>Flattening, regrouping and interleaving\<close>

lemma drop_concat_uniform:
  "\<forall>ys\<in>set yss. length ys = m \<Longrightarrow> drop (j * m) (concat yss) = concat (drop j yss)"
proof (induction yss arbitrary: j)
  case Nil
  then show ?case by simp
next
  case (Cons ys yss)
  then show ?case by (cases j) simp_all
qed

lemma length_concat_uniform:
  "\<forall>ys\<in>set yss. length ys = m \<Longrightarrow> length (concat yss) = length yss * m"
  by (induction yss) simp_all

lemma chunks_concat:
  assumes "\<forall>ys\<in>set yss. length ys = m"
  shows "chunks (length yss) m (concat yss) = yss"
proof (rule nth_equalityI)
  show "length (chunks (length yss) m (concat yss)) = length yss"
    by (simp add: chunks_def)
next
  fix j assume "j < length (chunks (length yss) m (concat yss))"
  then have j: "j < length yss" by (simp add: chunks_def)
  then have "drop j yss = yss ! j # drop (Suc j) yss"
    by (simp add: Cons_nth_drop_Suc)
  moreover have "length (yss ! j) = m" using assms j by simp
  ultimately have "take m (concat (drop j yss)) = yss ! j" by simp
  with j show "chunks (length yss) m (concat yss) ! j = yss ! j"
    by (simp add: chunks_def drop_concat_uniform [OF assms])
qed

lemma unflatten3_flatten3:
  assumes "rect3 c h w i"
  shows "unflatten3 c h w (flatten3 i) = i"
proof -
  have rows: "\<forall>ys\<in>set (map concat i). length ys = h * w"
    using assms by (auto simp: rect3_def length_concat_uniform)
  have "chunks c (h * w) (concat (map concat i)) = map concat i"
    using chunks_concat [OF rows] assms by (simp add: rect3_def)
  moreover have "map (chunks h w) (map concat i) = i"
  proof -
    have "chunks h w (concat r) = r" if "r \<in> set i" for r
      using that assms chunks_concat [of r w] by (auto simp: rect3_def)
    then show ?thesis by (simp add: map_idI)
  qed
  ultimately show ?thesis by (simp add: unflatten3_def flatten3_def)
qed

lemma length_flatten3: "rect3 c h w i \<Longrightarrow> length (flatten3 i) = c * h * w"
proof -
  assume r: "rect3 c h w i"
  then have "\<forall>ys\<in>set (map concat i). length ys = h * w"
    by (auto simp: rect3_def length_concat_uniform)
  then have "length (concat (map concat i)) = length (map concat i) * (h * w)"
    by (rule length_concat_uniform)
  with r show ?thesis by (simp add: flatten3_def rect3_def)
qed

lemma flat_images: "rect4 c h w t \<Longrightarrow> \<forall>ys\<in>set (map flatten3 t). length ys = c * h * w"
  by (auto simp: rect4_def length_flatten3)

lemma length_flatten4: "rect4 c h w t \<Longrightarrow> length (flatten4 t) = length t * (c * h * w)"
  using length_concat_uniform [OF flat_images, of c h w t] by (simp add: flatten4_def)

lemma unflatten4_flatten4:
  assumes "rect4 c h w t"
  shows "unflatten4 (length t) c h w (flatten4 t) = t"
proof -
  have "chunks (length t) (c * h * w) (concat (map flatten3 t)) = map flatten3 t"
    using chunks_concat [OF flat_images [OF assms]] by simp
  moreover have "map (unflatten3 c h w) (map flatten3 t) = t"
    using assms by (simp add: rect4_def unflatten3_flatten3 map_idI)
  ultimately show ?thesis by (simp add: unflatten4_def flatten4_def)
qed

lemma pairs_interleave:
  "length a = length b \<Longrightarrow> concat (map (\<lambda>j. [a ! j, b ! j]) [0..<length a]) = interleave a b"
proof (induction a b rule: list_induct2)
  case Nil
  then show ?case by simp
next
  case (Cons x xs y ys)
  then show ?case by (simp add: map_upt_Suc del: upt_Suc)
qed

lemma permute_10_pair:
  "permute_10 [a, b] = map (\<lambda>j. [a ! j, b ! j]) [0..<length a]"
  by (simp add: permute_10_def size1_def)

lemma flatten5_concat: "flatten5 t = flatten4 (concat t)"
  by (induction t) (simp_all add: flatten5_def flatten4_def)

lemma flatten5_permute_pair:
  "length a = length b \<Longrightarrow> flatten5 (permute_10 [a, b]) = flatten4 (interleave a b)"
  using pairs_interleave [of a b] by (simp add: flatten5_concat permute_10_pair)

lemma set_interleave: "set (interleave a b) \<subseteq> set a \<union> set b"
  by (induction a b rule: interleave.induct) auto

lemma rect4_interleave:
  "rect4 c h w a \<Longrightarrow> rect4 c h w b \<Longrightarrow> rect4 c h w (interleave a b)"
  using set_interleave [of a b] by (auto simp: rect4_def)

lemma length_interleave: "length (interleave a b) = 2 * min (length a) (length b)"
  by (induction a b rule: interleave.induct) auto

lemma interleave_nth:
  "i < length a \<Longrightarrow> i < length b \<Longrightarrow>
     interleave a b ! (2 * i) = a ! i \<and> interleave a b ! (2 * i + 1) = b ! i"
proof (induction a b arbitrary: i rule: interleave.induct)
  case (1 x xs y ys)
  then show ?case by (cases i) simp_all
qed simp_all

lemma rect3_sizes:
  assumes "rect3 c h w i"
  shows "length i = c" and "size1 i = (if c = 0 then 0 else h)"
    and "size2 i = (if c = 0 \<or> h = 0 then 0 else w)"
  using assms by (auto simp: rect3_def size1_def size2_def split: list.splits)

lemma rect4_sizes:
  assumes "rect4 c h w t" and "t \<noteq> []"
  shows "size1 t = c" and "size2 t = (if c = 0 then 0 else h)"
    and "size3 t = (if c = 0 \<or> h = 0 then 0 else w)"
proof -
  from assms obtain i rest where t: "t = i # rest" by (cases t) auto
  with assms have r: "rect3 c h w i" by (simp add: rect4_def)
  show "size1 t = c" using t rect3_sizes(1) [OF r] by (simp add: size1_def)
  show "size2 t = (if c = 0 then 0 else h)"
    using t rect3_sizes(2) [OF r] by (simp add: size2_def)
  show "size3 t = (if c = 0 \<or> h = 0 then 0 else w)"
    using t rect3_sizes(3) [OF r] by (simp add: size3_def)
qed

lemma rect3_normal:
  "rect3 c h w i \<Longrightarrow>
     rect3 c (if c = 0 then 0 else h) (if c = 0 \<or> h = 0 then 0 else w) i"
  by (auto simp: rect3_def)

lemma rect4_normal:
  "rect4 c h w t \<Longrightarrow>
     rect4 c (if c = 0 then 0 else h) (if c = 0 \<or> h = 0 then 0 else w) t"
  using rect3_normal by (auto simp: rect4_def)

lemma rect4_take: "rect4 c h w t \<Longrightarrow> rect4 c h w (take k t)"
  by (auto simp: rect4_def dest: in_set_takeD)

lemma stack2_same_rect:
  assumes "rect4 c h w a" and "rect4 c h w b" and "length a = length b" and "a \<noteq> []"
  shows "stack2 a b = Inr [a, b]"
proof -
  from assms have "b \<noteq> []" by auto
  then show ?thesis
    using rect4_sizes [OF assms(1) assms(4)] rect4_sizes [OF assms(2)] assms(3)
    by (simp add: stack2_def shape4_def)
qed

lemma reshape4_pairs:
  assumes "rect4 c h w a" and "rect4 c h w b" and "length a = length b" and "a \<noteq> []"
  shows "reshape4 (permute_10 [a, b]) (2 * length a) (size1 a) (size2 a) (size3 a) =
     Inr (interleave a b)"
proof -
  let ?h = "if c = 0 then 0 else h" and ?w = "if c = 0 \<or> h = 0 then 0 else w"
  have sz: "size1 a = c" "size2 a = ?h" "size3 a = ?w"
    using rect4_sizes [OF assms(1) assms(4)] by simp_all
  have r: "rect4 c ?h ?w (interleave a b)"
    using rect4_normal [OF rect4_interleave [OF assms(1) assms(2)]] .
  have len: "length (interleave a b) = 2 * length a"
    using assms(3) by (simp add: length_interleave)
  have flat: "flatten5 (permute_10 [a, b]) = flatten4 (interleave a b)"
    using assms(3) by (rule flatten5_permute_pair)
  have "length (flatten4 (interleave a b)) = 2 * length a * (c * ?h * ?w)"
    using length_flatten4 [OF r] len by simp
  moreover have "unflatten4 (2 * length a) c ?h ?w (flatten4 (interleave a b)) = interleave a b"
    using unflatten4_flatten4 [OF r] len by simp
  ultimately show ?thesis
    unfolding reshape4_def flat sz by (simp add: mult.assoc)
qed

lemma save_input_and_recons_grid:
  assumes fp: "forward_pass L (model e) x w = (Inr outputs, w1)"
    and x: "rect4 c h v x" and "32 \<le> length x"
    and s: "rect4 c h v (out_sample outputs)" and "32 \<le> length (out_sample outputs)"
  shows "save_input_and_recons L e x fname 8 w =
     (Inr (),
      save_image (interleave (take 32 x) (take 32 (out_sample outputs))) fname 8
        (img_grid_pad_value L (interleave (take 32 x) (take 32 (out_sample outputs)))) w1)"
proof -
  let ?a = "take 32 x" and ?b = "take 32 (out_sample outputs)"
  have la: "length ?a = 32" and lb: "length ?b = 32"
    using assms(3,5) by simp_all
  then have ne: "?a \<noteq> []" by auto
  have ra: "rect4 c h v ?a" and rb: "rect4 c h v ?b"
    using x s by (simp_all add: rect4_take)
  have st: "stack2 ?a ?b = Inr [?a, ?b]"
    using stack2_same_rect [OF ra rb _ ne] la lb by simp
  have "reshape4 (permute_10 [?a, ?b]) (2 * length ?a) (size1 ?a) (size2 ?a) (size3 ?a) =
      Inr (interleave ?a ?b)"
    using reshape4_pairs [OF ra rb _ ne] la lb by simp
  then have rs: "reshape4 (permute_10 [?a, ?b]) 64 (size1 ?a) (size2 ?a) (size3 ?a) =
      Inr (interleave ?a ?b)"
    using la by simp
  have n: "(8::int) ^ 2 div 2 = 32" "nat ((8::int) ^ 2) = 64" "nat 32 = 32"
    by simp_all
  have "\<not> int (length x) < 32" using assms(3) by simp
  then show ?thesis
    using fp st rs by (simp add: save_input_and_recons_def Let_def n)
qed

subsection \<open>The grid that is written\<close>

lemma forward_pass_frame:
  "forward_pass L m x w = (res, w1) \<Longrightarrow>
     saved w1 = saved w \<and> prior_calls w1 = prior_calls w \<and>
     forward_calls w1 = forward_calls w @ [x]"
  by (auto simp: forward_pass_def Let_def split: prod.splits sum.splits)

lemma rect4_ex_batch: "rect4 1 1 1 (ex_batch k)"
  by (auto simp: rect4_def rect3_def ex_batch_def)

lemma ex_forward_pass:
  "\<exists>outputs. forward_pass ex_library ex_model (ex_batch k) w =
       (Inr outputs, w\<lparr>rng := rng w + 1, forward_calls := forward_calls w @ [ex_batch k]\<rparr>) \<and>
     out_sample outputs = map (map (map (map (\<lambda>u. u + 100)))) (ex_batch k)"
  by (simp add: forward_pass_def ex_library_def ex_model_def tensor_sub_def sum_dims_123_def
      sum_dim_1_def Let_def)

lemma ex_sample_rect: "rect4 1 1 1 (map (map (map (map (\<lambda>u. u + 100)))) (ex_batch k))"
  by (auto simp: rect4_def rect3_def ex_batch_def)

lemma ex_batch_nth: "i < k \<Longrightarrow> ex_batch k ! i = [[[real i]]]"
  by (simp add: ex_batch_def)

lemma length_ex_batch: "length (ex_batch k) = k"
  by (simp add: ex_batch_def)

text \<open>
  C4. Let the batch \<open>x\<close> hold at least 32 images of one shape, and let the forward pass
  on \<open>x\<close> succeed with a sample of at least 32 images of that shape. For \<open>n = 8\<close>,
  \<^verbatim>\<open>save_input_and_recons\<close> makes exactly one call of \<^verbatim>\<open>save_image\<close>, under the given file
  name and with \<^verbatim>\<open>nrow = 8\<close>. The tensor it writes holds 64 images: the image at position
  \<open>2 * i\<close> is the input example \<open>i\<close> and the image at position \<open>2 * i + 1\<close> is its
  reconstruction, the sample of the model for example \<open>i\<close>, for every \<open>i\<close> below 32. The
  padding value is \<^verbatim>\<open>img_grid_pad_value\<close> of that same tensor. With \<^verbatim>\<open>nrow = 8\<close> the grid
  places the image at position \<open>k\<close> in row \<open>k div 8\<close> and column \<open>k mod 8\<close>, so the pairs are
  adjacent in a row, in row-major order.
\<close>

theorem save_input_and_recons_pairs:
  assumes "forward_pass L (model e) x w = (Inr outputs, w1)"
    and "rect4 c h v x" and "32 \<le> length x"
    and "rect4 c h v (out_sample outputs)" and "32 \<le> length (out_sample outputs)"
  shows "\<exists>g. save_input_and_recons L e x fname 8 w = (Inr (), w1\<lparr>saved := saved w @ [g]\<rparr>) \<and>
           fp g = fname \<and> nrow g = 8 \<and> length (tensor g) = 64 \<and>
           (\<forall>i<32. tensor g ! (2 * i) = x ! i \<and>
                    tensor g ! (2 * i + 1) = out_sample outputs ! i) \<and>
           pad_value g = img_grid_pad_value L (tensor g)"
proof -
  let ?t = "interleave (take 32 x) (take 32 (out_sample outputs))"
  let ?g = "\<lparr>tensor = ?t, fp = fname, nrow = 8, pad_value = img_grid_pad_value L ?t\<rparr>"
  have "save_input_and_recons L e x fname 8 w =
      (Inr (), save_image ?t fname 8 (img_grid_pad_value L ?t) w1)"
    using assms by (rule save_input_and_recons_grid)
  moreover have "saved w1 = saved w"
    using forward_pass_frame [OF assms(1)] by simp
  ultimately have run: "save_input_and_recons L e x fname 8 w =
      (Inr (), w1\<lparr>saved := saved w @ [?g]\<rparr>)"
    by (simp add: save_image_def)
  have len: "length ?t = 64"
    using assms(3,5) by (simp add: length_interleave)
  have nth: "?t ! (2 * i) = x ! i \<and> ?t ! (2 * i + 1) = out_sample outputs ! i" if "i < 32" for i
    using that assms(3,5)
      interleave_nth [of i "take 32 x" "take 32 (out_sample outputs)"] by simp
  show ?thesis
    using run len nth by (intro exI [of _ ?g]) simp
qed

theorem save_input_and_recons_pairs_witness:
  "\<exists>g. save_input_and_recons ex_library (ex_experiment False 32) (ex_batch 32) ''r.png'' 8
           ex_world =
          (Inr (), ex_world\<lparr>rng := 1, forward_calls := [ex_batch 32], saved := [g]\<rparr>) \<and>
        fp g = ''r.png'' \<and> nrow g = 8 \<and> length (tensor g) = 64 \<and>
        tensor g ! 10 = [[[5]]] \<and> tensor g ! 11 = [[[105]]] \<and> pad_value g = 0"
proof -
  obtain outputs where out:
    "forward_pass ex_library ex_model (ex_batch 32) ex_world =
       (Inr outputs,
        ex_world\<lparr>rng := rng ex_world + 1,
                 forward_calls := forward_calls ex_world @ [ex_batch 32]\<rparr>)"
    "out_sample outputs = map (map (map (map (\<lambda>u. u + 100)))) (ex_batch 32)"
    using ex_forward_pass [of 32 ex_world] by blast
  have m: "model (ex_experiment False 32) = ex_model"
    by (simp add: ex_experiment_def)
  from save_input_and_recons_pairs
    [of ex_library "ex_experiment False 32" "ex_batch 32" ex_world outputs _ 1 1 1 "''r.png''"]
  obtain g where g:
    "save_input_and_recons ex_library (ex_experiment False 32) (ex_batch 32) ''r.png'' 8 ex_world =
       (Inr (), ex_world\<lparr>rng := rng ex_world + 1,
                         forward_calls := forward_calls ex_world @ [ex_batch 32],
                         saved := saved ex_world @ [g]\<rparr>)"
    "fp g = ''r.png''" "nrow g = 8" "length (tensor g) = 64"
    "\<forall>i<32. tensor g ! (2 * i) = ex_batch 32 ! i \<and>
             tensor g ! (2 * i + 1) = out_sample outputs ! i"
    "pad_value g = img_grid_pad_value ex_library (tensor g)"
    using out m rect4_ex_batch [of 32] ex_sample_rect [of 32]
    by (auto simp: length_ex_batch)
  have "(5::nat) < 32" by simp
  with g(5) have "tensor g ! (2 * 5) = ex_batch 32 ! 5 \<and>
      tensor g ! (2 * 5 + 1) = out_sample outputs ! 5" by blast
  then have "tensor g ! 10 = [[[5]]]" and "tensor g ! 11 = [[[105]]]"
    using out(2) by (simp_all add: ex_batch_nth length_ex_batch)
  moreover have "pad_value g = 0"
    using g(6) by (simp add: ex_library_def)
  ultimately show ?thesis
    using g(1-4) by (intro exI [of _ g]) (simp add: ex_world_def)
qed



section \<open>The two images of a visualization\<close>

lemma str_int_7: "str_int 7 = ''7''"
  by (simp add: str_int_def str_nat.simps digit_char_def)

text \<open>
  C8, the claim as stated. The claim reads: every call of \<^verbatim>\<open>additional_testing\<close> without
  the dry-run flag writes exactly two images. When the first batch of the test loader
  has 31 examples, the grid of prior samples is written, and then
  \<^verbatim>\<open>save_input_and_recons\<close> raises its \<^verbatim>\<open>RuntimeError\<close>: the call ends with one image
  written, \<^verbatim>\<open>sample_7.png\<close> for the step 7, and no reconstruction image.
\<close>

theorem additional_testing_small_batch_counterexample:
  "\<not> dry_run (args (ex_experiment False 31)) \<and>
   additional_testing ex_library (ex_experiment False 31) ''imgs'' ex_world =
     (Inl (RuntimeError
        ''32 data points required, but given batch has size 31. Please use a larger batch.''),
      ex_world\<lparr>rng := 1, prior_calls := [64],
               saved := [\<lparr>tensor = replicate 64 [[[0]]], fp = ''imgs/sample_7.png'',
                          nrow = 8, pad_value = 0\<rparr>]\<rparr>)"
  by (simp add: additional_testing_def save_input_and_recons_def ex_experiment_def ex_model_def
      ex_library_def ex_world_def save_image_def path_join_def str_int_7 str_int_32 str_int_31
      length_ex_batch Let_def)

text \<open>
  C8, amended. Let the dry-run flag be unset, let the first batch of the test loader
  hold at least 32 images of one shape, and let the forward pass on it succeed with a
  sample of at least 32 images of that shape. Then \<^verbatim>\<open>additional_testing\<close> returns
  normally and has made exactly two calls of \<^verbatim>\<open>save_image\<close>, in this order: the 64 prior
  samples under \<^verbatim>\<open>os.path.join(img_folder, 'sample_<step>.png')\<close> and the grid of inputs
  and reconstructions under \<^verbatim>\<open>os.path.join(img_folder, 'reconstruction_<step>.png')\<close>,
  where \<open>step\<close> is \<^verbatim>\<open>global_step\<close> of the model at the call. The forward pass is the one
  run in the world that the first image leaves.
\<close>

theorem additional_testing_two_images:
  assumes "\<not> dry_run (args e)"
    and "sample_prior (model e) 64 (rng w) = (smp, r)"
    and "dataloaders_test e = (x, y) # rest"
    and "forward_pass L (model e) x
           (save_image smp (path_join img_folder
               (''sample_'' @ str_int (global_step (model e)) @ ''.png'')) 8
              (img_grid_pad_value L smp)
              (w\<lparr>rng := r, prior_calls := prior_calls w @ [64]\<rparr>)) = (Inr outputs, w1)"
    and "rect4 c h v x" and "32 \<le> length x"
    and "rect4 c h v (out_sample outputs)" and "32 \<le> length (out_sample outputs)"
  shows "\<exists>g1 g2. additional_testing L e img_folder w =
             (Inr (), w1\<lparr>saved := saved w @ [g1, g2]\<rparr>) \<and>
           fp g1 = path_join img_folder
                     (''sample_'' @ str_int (global_step (model e)) @ ''.png'') \<and>
           fp g2 = path_join img_folder
                     (''reconstruction_'' @ str_int (global_step (model e)) @ ''.png'') \<and>
           tensor g1 = smp \<and> nrow g1 = 8 \<and> pad_value g1 = img_grid_pad_value L smp \<and>
           tensor g2 = interleave (take 32 x) (take 32 (out_sample outputs)) \<and> nrow g2 = 8 \<and>
           pad_value g2 = img_grid_pad_value L (tensor g2)"
proof -
  let ?f1 = "path_join img_folder (''sample_'' @ str_int (global_step (model e)) @ ''.png'')"
  let ?f2 = "path_join img_folder
      (''reconstruction_'' @ str_int (global_step (model e)) @ ''.png'')"
  let ?w0 = "save_image smp ?f1 8 (img_grid_pad_value L smp)
      (w\<lparr>rng := r, prior_calls := prior_calls w @ [64]\<rparr>)"
  let ?t = "interleave (take 32 x) (take 32 (out_sample outputs))"
  let ?g1 = "\<lparr>tensor = smp, fp = ?f1, nrow = 8, pad_value = img_grid_pad_value L smp\<rparr>"
  let ?g2 = "\<lparr>tensor = ?t, fp = ?f2, nrow = 8, pad_value = img_grid_pad_value L ?t\<rparr>"
  have grid: "save_input_and_recons L e x ?f2 8 ?w0 =
      (Inr (), save_image ?t ?f2 8 (img_grid_pad_value L ?t) w1)"
    using assms(4-8) by (rule save_input_and_recons_grid)
  have "saved w1 = saved ?w0"
    using forward_pass_frame [OF assms(4)] by simp
  then have sv: "saved w1 = saved w @ [?g1]"
    by (simp add: save_image_def)
  have "additional_testing L e img_folder w = save_input_and_recons L e x ?f2 8 ?w0"
    using assms(1-3) by (simp add: additional_testing_def Let_def)
  with grid sv have "additional_testing L e img_folder w =
      (Inr (), w1\<lparr>saved := saved w @ [?g1, ?g2]\<rparr>)"
    by (simp add: save_image_def)
  then show ?thesis
    by (intro exI [of _ ?g1] exI [of _ ?g2]) simp
qed

theorem additional_testing_two_images_witness:
  "\<exists>g1 g2. additional_testing ex_library (ex_experiment False 32) ''imgs'' ex_world =
            (Inr (), ex_world\<lparr>rng := 2, forward_calls := [ex_batch 32], prior_calls := [64],
                              saved := [g1, g2]\<rparr>) \<and>
          fp g1 = ''imgs/sample_7.png'' \<and> fp g2 = ''imgs/reconstruction_7.png''"
proof -
  let ?e = "ex_experiment False 32"
  let ?smp = "replicate 64 [[[0::real]]]"
  let ?w0 = "save_image ?smp (path_join ''imgs''
               (''sample_'' @ str_int (global_step (model ?e)) @ ''.png'')) 8
              (img_grid_pad_value ex_library ?smp)
              (ex_world\<lparr>rng := 1, prior_calls := prior_calls ex_world @ [64]\<rparr>)"
  have e: "model ?e = ex_model" "\<not> dry_run (args ?e)"
    "dataloaders_test ?e = (ex_batch 32, ()) # []"
    by (simp_all add: ex_experiment_def)
  have sp: "sample_prior (model ?e) 64 (rng ex_world) = (?smp, 1)"
    by (simp add: e ex_model_def ex_world_def)
  obtain outputs where out:
    "forward_pass ex_library ex_model (ex_batch 32) ?w0 =
       (Inr outputs, ?w0\<lparr>rng := rng ?w0 + 1, forward_calls := forward_calls ?w0 @ [ex_batch 32]\<rparr>)"
    "out_sample outputs = map (map (map (map (\<lambda>u. u + 100)))) (ex_batch 32)"
    using ex_forward_pass [of 32 ?w0] by blast
  have names: "path_join ''imgs'' (''sample_'' @ str_int (global_step (model ?e)) @ ''.png'') =
        ''imgs/sample_7.png''"
    "path_join ''imgs'' (''reconstruction_'' @ str_int (global_step (model ?e)) @ ''.png'') =
        ''imgs/reconstruction_7.png''"
    by (simp_all add: e ex_model_def path_join_def str_int_7)
  from additional_testing_two_images
    [of ?e ex_world ?smp 1 "ex_batch 32" "()" "[]" ex_library "''imgs''" outputs _ 1 1 1]
  obtain g1 g2 where g:
    "additional_testing ex_library ?e ''imgs'' ex_world =
       (Inr (), (?w0\<lparr>rng := rng ?w0 + 1, forward_calls := forward_calls ?w0 @ [ex_batch 32]\<rparr>)
                \<lparr>saved := saved ex_world @ [g1, g2]\<rparr>)"
    "fp g1 = path_join ''imgs'' (''sample_'' @ str_int (global_step (model ?e)) @ ''.png'')"
    "fp g2 = path_join ''imgs''
        (''reconstruction_'' @ str_int (global_step (model ?e)) @ ''.png'')"
    using e sp out rect4_ex_batch [of 32] ex_sample_rect [of 32]
    by (auto simp: length_ex_batch)
  show ?thesis
    using g names
    by (intro exI [of _ g1] exI [of _ g2]) (simp add: ex_world_def save_image_def)
qed

end
